theory Spec2Isabelle
  imports Complex_Main "HOL-Library.Char_ord" "HOL-Library.List_Lexorder"
begin

section \<open>Time, numbers and errors\<close>

text \<open>
  A naive UTC \<^verbatim>\<open>datetime\<close> is the number of microseconds since a fixed epoch, a
  \<^verbatim>\<open>timedelta\<close> a number of microseconds. Every call of \<^verbatim>\<open>datetime.utcnow()\<close>
  inside one service call reads the parameter \<open>now\<close> of the modelled function.
  Python floats are modelled by exact rationals.
\<close>

type_synonym datetime = int
type_synonym timedelta = int

definition minutes :: "int \<Rightarrow> timedelta" where
  "minutes n = n * 60000000"

definition days :: "int \<Rightarrow> timedelta" where
  "days n = n * 86400000000"

definition total_seconds :: "timedelta \<Rightarrow> rat" where
  "total_seconds d = of_int d / 1000000"

definition date_of :: "datetime \<Rightarrow> int" where
  \<comment> \<open>\<^verbatim>\<open>start_time.date()\<close>: the day number; \<^verbatim>\<open>isoformat()\<close> of a date is injective\<close>
  "date_of t = t div 86400000000"

definition round2 :: "rat \<Rightarrow> rat" where
  \<comment> \<open>\<^verbatim>\<open>round(x, 2)\<close>: nearest multiple of 1/100, ties to the even one\<close>
  "round2 x =
     (let y = x * 100; f = \<lfloor>y\<rfloor>; d = y - of_int f
      in (if d < 1 / 2 then of_int f
          else if 1 / 2 < d then of_int f + 1
          else if even f then of_int f
          else of_int f + 1) / 100)"

datatype error =
    KeyError string
  | ValueError string
  | AttributeError string
  | NameError string
  | UnboundLocalError string
  | TypeError
  | ZeroDivisionError
  | IntegrityError

definition py_div :: "rat \<Rightarrow> rat \<Rightarrow> error + rat" where
  \<comment> \<open>true division \<^verbatim>\<open>a / b\<close>\<close>
  "py_div a b = (if b = 0 then Inl ZeroDivisionError else Inr (a / b))"

datatype json =
    JStr string
  | JNum int
  | JBool bool
  | JList "json list"
  | JObj "(string \<times> json) list"

section \<open>The record store\<close>

text \<open>
  The ORM classes of \<^verbatim>\<open>app.models\<close> carry the columns the services read and write.
  A table is the list of its rows in insertion order; \<^verbatim>\<open>db.add\<close> with \<^verbatim>\<open>db.commit\<close>
  appends a row, \<^verbatim>\<open>.first()\<close> returns the first row that passes the filter.
\<close>

record agent =
  hostname :: string
  ip_address :: string
  os :: string
  agent_id :: string
  last_seen :: datetime
  enabled :: bool

record agent_config =
  config_agent_id :: string
  config :: json

record backup_job =
  job_agent_id :: string
  start_time :: datetime
  end_time :: "datetime option"
  status :: string
  tool :: string
  source :: string
  destination :: string
  size_bytes :: rat
  logs :: string
  error_message :: "string option"

record system_event =
  category :: string
  event_type :: string
  description :: string
  event_agent_id :: "string option"
  backup_job_id :: "nat option"
  related_id :: "string option"
  details :: "string option"
  event_priority :: string
  timestamp :: datetime

record notification =
  n_title :: string
  n_message :: string
  n_category :: string
  n_priority :: string
  n_related_id :: "string option"
  n_user_id :: "nat option"
  n_read :: bool
  n_timestamp :: datetime

record db =
  agents :: "agent list"
  agent_configs :: "agent_config list"
  backup_jobs :: "backup_job list"
  system_events :: "system_event list"
  notifications :: "notification list"

record settings =
  host :: string
  agent_heartbeat_timeout_minutes :: int

fun update_first :: "('a \<Rightarrow> bool) \<Rightarrow> ('a \<Rightarrow> 'a) \<Rightarrow> 'a list \<Rightarrow> 'a list" where
  "update_first P f [] = []"
| "update_first P f (x # xs) = (if P x then f x # xs else x # update_first P f xs)"

section \<open>Agent registry (services/agents.py)\<close>

definition get_agent :: "db \<Rightarrow> string \<Rightarrow> agent option" where
  "get_agent d aid = find (\<lambda>a. agent_id a = aid) (agents d)"

definition get_agent_by_hostname :: "db \<Rightarrow> string \<Rightarrow> agent option" where
  "get_agent_by_hostname d h = find (\<lambda>a. hostname a = h) (agents d)"

definition dict_get :: "(string \<rightharpoonup> 'a) \<Rightarrow> string \<Rightarrow> 'a \<Rightarrow> 'a" where
  \<comment> \<open>\<^verbatim>\<open>d.get(key, default)\<close>\<close>
  "dict_get m k dflt = (case m k of None \<Rightarrow> dflt | Some v \<Rightarrow> v)"

definition default_config :: "settings \<Rightarrow> string \<Rightarrow> json" where
  "default_config st aid = JObj
     [(''server_url'', JStr (''http://'' @ host st @ '':9200/api/agents'')),
      (''heartbeat_interval'', JNum 60),
      (''backup_jobs'', JList []),
      (''repositories'', JList []),
      (''logging'', JObj [(''level'', JStr ''INFO''),
                          (''file'', JStr (''/var/log/backup_agent_'' @ aid @ ''.log''))]),
      (''security'', JObj [(''web_local_only'', JBool True),
                           (''require_auth'', JBool False)])]"

definition create_default_config :: "db \<Rightarrow> settings \<Rightarrow> string \<Rightarrow> db" where
  \<comment> \<open>the stored text is \<^verbatim>\<open>json.dumps(default_config)\<close>; the row keeps the value it encodes\<close>
  "create_default_config d st aid =
     d\<lparr>agent_configs := agent_configs d @
          [\<lparr>config_agent_id = aid, config = default_config st aid\<rparr>]\<rparr>"

definition create_agent ::
  "db \<Rightarrow> (string \<rightharpoonup> string) \<Rightarrow> settings \<Rightarrow> string \<Rightarrow> datetime \<Rightarrow> (error + agent) \<times> db" where
  \<comment> \<open>\<open>uuid\<close> is the value of \<^verbatim>\<open>str(uuid4())\<close>; an exception rolls back and is raised again\<close>
  "create_agent d agent_info st uuid now =
     (case agent_info ''hostname'' of
        None \<Rightarrow> (Inl (KeyError ''hostname''), d)
      | Some h \<Rightarrow>
          (case get_agent_by_hostname d h of
             Some existing \<Rightarrow>
               (let existing' = existing
                      \<lparr>ip_address := dict_get agent_info ''ip_address'' (ip_address existing),
                       os := dict_get agent_info ''os'' (os existing),
                       last_seen := now\<rparr>
                in (Inr existing',
                    d\<lparr>agents := update_first (\<lambda>a. hostname a = h) (\<lambda>_. existing') (agents d)\<rparr>))
           | None \<Rightarrow>
               (let new_agent = \<lparr>hostname = h,
                                 ip_address = dict_get agent_info ''ip_address'' '''',
                                 os = dict_get agent_info ''os'' '''',
                                 agent_id = uuid,
                                 last_seen = now,
                                 enabled = True\<rparr>;
                    d1 = d\<lparr>agents := agents d @ [new_agent]\<rparr>
                in (Inr new_agent, create_default_config d1 st (agent_id new_agent)))))"

definition update_agent_heartbeat :: "db \<Rightarrow> string \<Rightarrow> datetime \<Rightarrow> bool \<times> db" where
  "update_agent_heartbeat d aid now =
     (case get_agent d aid of
        None \<Rightarrow> (False, d)
      | Some a \<Rightarrow>
          (True, d\<lparr>agents := update_first (\<lambda>a. agent_id a = aid)
                                (\<lambda>a. a\<lparr>last_seen := now\<rparr>) (agents d)\<rparr>))"

definition get_agents :: "db \<Rightarrow> nat \<Rightarrow> nat \<Rightarrow> bool option \<Rightarrow> agent list" where
  "get_agents d skip limit en =
     take limit (drop skip
       (case en of None \<Rightarrow> agents d | Some e \<Rightarrow> filter (\<lambda>a. enabled a = e) (agents d)))"

section \<open>Job ledger (services/agents.py)\<close>

definition bind_err :: "error + 'a \<Rightarrow> ('a \<Rightarrow> error + 'b) \<Rightarrow> error + 'b" where
  \<comment> \<open>sequencing: the first exception ends the computation\<close>
  "bind_err m f = (case m of Inl e \<Rightarrow> Inl e | Inr x \<Rightarrow> f x)"







section \<open>Statistics and performance (services/agents.py)\<close>

record agent_stats =
  s_agent_id :: string
  s_hostname :: string
  total_backups :: nat
  success_backups :: nat
  failed_backups :: nat
  s_success_rate :: rat
  last_backup :: "datetime option"
  s_status :: string
  s_last_seen :: datetime

definition get_agent_stats_try ::
  "db \<Rightarrow> settings \<Rightarrow> string \<Rightarrow> datetime \<Rightarrow> error + agent_stats option" where
  \<comment> \<open>the body of the \<^verbatim>\<open>try\<close> block\<close>
  "get_agent_stats_try d st aid now =
     (case get_agent d aid of
        None \<Rightarrow> Inr None
      | Some a \<Rightarrow>
          (let js = filter (\<lambda>j. job_agent_id j = aid) (backup_jobs d);
               total = length js;
               success = length (filter (\<lambda>j. status j = ''success'') js);
               failed = length (filter (\<lambda>j. status j = ''failed'') js);
               last_b = (case rev (sort_key start_time js) of
                           [] \<Rightarrow> None | j # _ \<Rightarrow> Some (start_time j));
               threshold = now - minutes (agent_heartbeat_timeout_minutes st);
               stat = (if threshold < last_seen a then ''online'' else ''offline'')
           in bind_err (if 0 < total
                        then bind_err (py_div (of_nat success) (of_nat total))
                               (\<lambda>q. Inr (q * 100))
                        else Inr 0) (\<lambda>rate.
                Inr (Some \<lparr>s_agent_id = aid,
                           s_hostname = hostname a,
                           total_backups = total,
                           success_backups = success,
                           failed_backups = failed,
                           s_success_rate = round2 rate,
                           last_backup = last_b,
                           s_status = stat,
                           s_last_seen = last_seen a\<rparr>))))"

definition get_agent_stats ::
  "db \<Rightarrow> settings \<Rightarrow> string \<Rightarrow> datetime \<Rightarrow> agent_stats option" where
  \<comment> \<open>\<^verbatim>\<open>except Exception\<close>: log and return \<^verbatim>\<open>None\<close>\<close>
  "get_agent_stats d st aid now =
     (case get_agent_stats_try d st aid now of Inl _ \<Rightarrow> None | Inr r \<Rightarrow> r)"

record day_stats =
  d_success :: nat
  d_failed :: nat
  d_total :: nat
  d_duration :: rat
  d_size :: rat

record performance =
  daily_backups :: "(int \<times> day_stats) list"
  success_rate :: rat
  avg_duration :: rat
  total_size_gb :: rat
  p_total_backups :: nat

definition empty_performance :: performance where
  "empty_performance =
     \<lparr>daily_backups = [], success_rate = 0, avg_duration = 0, total_size_gb = 0,
      p_total_backups = 0\<rparr>"

definition new_day :: day_stats where
  "new_day = \<lparr>d_success = 0, d_failed = 0, d_total = 0, d_duration = 0, d_size = 0\<rparr>"

definition count_backup :: "backup_job \<Rightarrow> day_stats \<Rightarrow> day_stats" where
  \<comment> \<open>the updates of one day's entry for one backup\<close>
  "count_backup b s =
     (let s1 = s\<lparr>d_total := d_total s + 1\<rparr>;
          s2 = (case end_time b of
                  None \<Rightarrow> s1
                | Some e \<Rightarrow> s1\<lparr>d_duration := d_duration s1 + total_seconds (e - start_time b)\<rparr>);
          s3 = s2\<lparr>d_size := d_size s2 + size_bytes b\<rparr>
      in if status b = ''success'' then s3\<lparr>d_success := d_success s3 + 1\<rparr>
         else if status b = ''failed'' then s3\<lparr>d_failed := d_failed s3 + 1\<rparr>
         else s3)"

definition add_backup :: "(int \<times> day_stats) list \<Rightarrow> backup_job \<Rightarrow> (int \<times> day_stats) list" where
  \<comment> \<open>one round of the loop over \<^verbatim>\<open>backups\<close>; the dictionary keeps insertion order\<close>
  "add_backup daily b =
     (let day = date_of (start_time b);
          daily1 = (if map_of daily day = None then daily @ [(day, new_day)] else daily)
      in update_first (\<lambda>e. fst e = day) (\<lambda>e. (fst e, count_backup b (snd e))) daily1)"

definition window_backups :: "db \<Rightarrow> string \<Rightarrow> int \<Rightarrow> datetime \<Rightarrow> backup_job list" where
  \<comment> \<open>the query of \<^verbatim>\<open>get_agent_performance\<close>, ordered by start time\<close>
  "window_backups d aid n now =
     sort_key start_time
       (filter (\<lambda>j. job_agent_id j = aid \<and> now - days n \<le> start_time j) (backup_jobs d))"

definition get_agent_performance_try ::
  "db \<Rightarrow> string \<Rightarrow> int \<Rightarrow> datetime \<Rightarrow> error + performance" where
  \<comment> \<open>the body of the \<^verbatim>\<open>try\<close> block\<close>
  "get_agent_performance_try d aid n now =
     (let backups = window_backups d aid n now
      in if backups = [] then Inr empty_performance
         else
           (let daily_stats = foldl add_backup [] backups;
                success_count = sum_list (map (\<lambda>e. d_success (snd e)) daily_stats);
                total_count = sum_list (map (\<lambda>e. d_total (snd e)) daily_stats);
                total_duration = sum_list (map (\<lambda>e. d_duration (snd e)) daily_stats);
                total_size = sum_list (map (\<lambda>e. d_size (snd e)) daily_stats)
            in bind_err (if 0 < total_count
                         then bind_err (py_div (of_nat success_count) (of_nat total_count))
                                (\<lambda>q. Inr (q * 100))
                         else Inr 0) (\<lambda>rate.
               bind_err (if 0 < total_count
                         then py_div total_duration (of_nat total_count)
                         else Inr 0) (\<lambda>avg.
               bind_err (py_div total_size (1024 ^ 3)) (\<lambda>gb.
                 Inr \<lparr>daily_backups = daily_stats,
                      success_rate = round2 rate,
                      avg_duration = round2 avg,
                      total_size_gb = round2 gb,
                      p_total_backups = total_count\<rparr>)))))"

definition get_agent_performance :: "db \<Rightarrow> string \<Rightarrow> int \<Rightarrow> datetime \<Rightarrow> performance" where
  \<comment> \<open>\<^verbatim>\<open>except Exception\<close>: log and return the empty result\<close>
  "get_agent_performance d aid n now =
     (case get_agent_performance_try d aid n now of
        Inl _ \<Rightarrow> empty_performance | Inr p \<Rightarrow> p)"

section \<open>Health score (services/reports.py)\<close>

definition calculate_health_score ::
  "agent \<Rightarrow> agent_stats \<Rightarrow> performance \<Rightarrow> string list \<Rightarrow> datetime \<Rightarrow> rat" where
  "calculate_health_score a stats perf issues now =
     (let score = 100;
          score = (if ''high_failure_rate'' \<in> set issues then score - 30 else score);
          score = (if ''not_reporting'' \<in> set issues then score - 40 else score);
          score = (if ''low_success_rate'' \<in> set issues then score - 20 else score);
          score = (if success_rate perf < 80
                   then score - (80 - success_rate perf) * (1 / 2) else score);
          score = (if now - minutes 15 < last_seen a then score + 10 else score)
      in max 0 (min 100 score))"

text \<open>The score as the specification words it, over an issue set.\<close>

definition spec_health_score :: "string set \<Rightarrow> rat \<Rightarrow> datetime \<Rightarrow> datetime \<Rightarrow> rat" where
  "spec_health_score issue_set rate seen now =
     (let raw = 100
            - (if ''high_failure_rate'' \<in> issue_set then 30 else 0)
            - (if ''not_reporting'' \<in> issue_set then 40 else 0)
            - (if ''low_success_rate'' \<in> issue_set then 20 else 0)
            - (if rate < 80 then (80 - rate) * (1 / 2) else 0)
            + (if now - seen < minutes 15 then 10 else 0)
      in if raw < 0 then 0 else if 100 < raw then 100 else raw)"

section \<open>Events (services/events.py, utils/notifications.py)\<close>

definition EVENT_CATEGORIES :: "(string \<times> string list) list" where
  "EVENT_CATEGORIES =
     [(''agent'', [''register'', ''heartbeat'', ''config_update'', ''offline'', ''online'']),
      (''backup'', [''start'', ''success'', ''failed'', ''warning'']),
      (''system'', [''startup'', ''shutdown'', ''error'', ''maintenance'']),
      (''security'', [''login'', ''logout'', ''unauthorized'', ''config_change''])]"

definition EVENT_PRIORITIES :: "(string \<times> nat) list" where
  "EVENT_PRIORITIES = [(''low'', 1), (''medium'', 2), (''high'', 3), (''critical'', 4)]"

definition a_acute :: string where
  \<comment> \<open>the UTF-8 bytes of U+00E1\<close>
  "a_acute = [CHR 0xC3, CHR 0xA1]"

definition upper_char :: "char \<Rightarrow> char" where
  "upper_char c =
     (if CHR ''a'' \<le> c \<and> c \<le> CHR ''z'' then char_of (of_char c - (32::nat)) else c)"

definition upper :: "string \<Rightarrow> string" where
  \<comment> \<open>\<^verbatim>\<open>str.upper()\<close> on ASCII text\<close>
  "upper s = map upper_char s"

definition fmt_opt :: "string option \<Rightarrow> string" where
  \<comment> \<open>an optional text inside an f-string\<close>
  "fmt_opt v = (case v of None \<Rightarrow> ''None'' | Some s \<Rightarrow> s)"

definition py_or :: "string option \<Rightarrow> string option \<Rightarrow> string option" where
  \<comment> \<open>\<^verbatim>\<open>a or b\<close> on optional texts: the empty text is falsy\<close>
  "py_or a b = (case a of None \<Rightarrow> b | Some s \<Rightarrow> if s = [] then b else Some s)"

definition send_notification ::
  "db \<Rightarrow> string \<Rightarrow> string \<Rightarrow> string \<Rightarrow> string \<Rightarrow> string option \<Rightarrow> datetime
     \<Rightarrow> notification \<times> db" where
  \<comment> \<open>the e-mail that follows is sent inside \<^verbatim>\<open>try/except\<close> and leaves the store alone\<close>
  "send_notification d title message cat prio rel now =
     (let n = \<lparr>n_title = title, n_message = message, n_category = cat, n_priority = prio,
               n_related_id = rel, n_user_id = None, n_read = False, n_timestamp = now\<rparr>
      in (n, d\<lparr>notifications := notifications d @ [n]\<rparr>))"

definition event_message :: "system_event \<Rightarrow> string option" where
  \<comment> \<open>the local \<^verbatim>\<open>message\<close> of \<^verbatim>\<open>send_event_notification\<close>; \<open>None\<close> when no branch binds it\<close>
  "event_message ev =
     (if category ev = ''agent'' then
        (if event_type ev = ''offline''
         then Some (''Agente '' @ fmt_opt (event_agent_id ev) @ '' est'' @ a_acute
                    @ '' offline h'' @ a_acute @ '' mais de 15 minutos'')
         else if event_type ev = ''failed''
         then Some (''Backup falhou no agente '' @ fmt_opt (event_agent_id ev))
         else None)
      else if category ev = ''backup'' then
        (if event_type ev = ''failed''
         then Some (''Backup falhou no agente '' @ fmt_opt (event_agent_id ev))
         else None)
      else Some (description ev))"

definition send_event_notification ::
  "db \<Rightarrow> system_event \<Rightarrow> datetime \<Rightarrow> (error + unit) \<times> db" where
  "send_event_notification d ev now =
     (let title = ''Evento '' @ upper (event_priority ev) @ '': '' @ event_type ev
      in case event_message ev of
           None \<Rightarrow> (Inl (UnboundLocalError ''message''), d)
         | Some message \<Rightarrow>
             (Inr (), snd (send_notification d title message (category ev) (event_priority ev)
                             (py_or (event_agent_id ev) (related_id ev)) now)))"

definition create_event ::
  "db \<Rightarrow> string \<Rightarrow> string \<Rightarrow> string \<Rightarrow> string option \<Rightarrow> nat option \<Rightarrow> string option
     \<Rightarrow> (string \<times> json) list option \<Rightarrow> string \<Rightarrow> datetime \<Rightarrow> (error + system_event) \<times> db" where
  \<comment> \<open>the module never imports \<^verbatim>\<open>json\<close>: a non-empty \<^verbatim>\<open>details\<close> raises \<^verbatim>\<open>NameError\<close>\<close>
  "create_event d cat etype descr aid job rel dets prio now =
     (case map_of EVENT_CATEGORIES cat of
        None \<Rightarrow>
          (Inl (ValueError (''Categoria de evento inv'' @ a_acute @ ''lida: '' @ cat)), d)
      | Some types \<Rightarrow>
          if etype \<notin> set types
          then (Inl (ValueError (''Tipo de evento inv'' @ a_acute @ ''lido para categoria ''
                                 @ cat @ '': '' @ etype)), d)
          else
            (case map_of EVENT_PRIORITIES prio of
               None \<Rightarrow> (Inl (ValueError (''Prioridade inv'' @ a_acute @ ''lida: '' @ prio)), d)
             | Some rank \<Rightarrow>
                 if dets \<noteq> None \<and> dets \<noteq> Some []
                 then (Inl (NameError ''json''), d)
                 else
                   (let ev = \<lparr>category = cat, event_type = etype, description = descr,
                              event_agent_id = aid, backup_job_id = job, related_id = rel,
                              details = None, event_priority = prio, timestamp = now\<rparr>;
                        d1 = d\<lparr>system_events := system_events d @ [ev]\<rparr>
                    in case map_of EVENT_PRIORITIES ''high'' of
                         None \<Rightarrow> (Inl (KeyError ''high''), d1)
                       | Some high \<Rightarrow>
                           if high \<le> rank
                           then (case send_event_notification d1 ev now of
                                   (Inl e, d2) \<Rightarrow> (Inl e, d2)
                                 | (Inr _, d2) \<Rightarrow> (Inr ev, d2))
                           else (Inr ev, d1))))"

text \<open>The vocabulary table as a list of pairs.\<close>

definition vocabulary :: "(string \<times> string) list" where
  "vocabulary = concat (map (\<lambda>e. map (Pair (fst e)) (snd e)) EVENT_CATEGORIES)"

section \<open>Tips (services/tips.py)\<close>

text \<open>
  A metric or a threshold is a number or a text; the metric \<^verbatim>\<open>last_seen\<close> is the ISO
  rendering of a datetime. Of a rule the model keeps the identifier, the condition and
  the priorities of its solutions in order: titles, descriptions and resource links are
  display text that the tip carries unchanged.
\<close>

datatype mval = MNum rat | MStr string | MIso datetime

record metric_cond =
  operator :: string
  threshold :: mval

record tip_rule =
  rule_id :: string
  rule_category :: string
  rule_metrics :: "(string \<times> metric_cond) list"
  rule_solutions :: "string list"

definition TIPS_DATABASE :: "tip_rule list" where
  "TIPS_DATABASE =
     [\<lparr>rule_id = ''backup_slow_performance'', rule_category = ''agent'',
       rule_metrics =
         [(''avg_duration_seconds'', \<lparr>operator = ''>'', threshold = MNum 3600\<rparr>),
          (''success_rate'', \<lparr>operator = ''<'', threshold = MNum 90\<rparr>)],
       rule_solutions = [''high'', ''medium'', ''medium'']\<rparr>,
      \<lparr>rule_id = ''backup_high_failure_rate'', rule_category = ''agent'',
       rule_metrics =
         [(''success_rate'', \<lparr>operator = ''<'', threshold = MNum 80\<rparr>),
          (''failed_backups'', \<lparr>operator = ''>'', threshold = MNum 3\<rparr>)],
       rule_solutions = [''critical'', ''high'', ''critical'']\<rparr>,
      \<lparr>rule_id = ''agent_offline'', rule_category = ''agent'',
       rule_metrics =
         [(''status'', \<lparr>operator = ''=='', threshold = MStr ''offline''\<rparr>),
          (''last_seen'', \<lparr>operator = ''<'', threshold = MStr ''1h''\<rparr>)],
       rule_solutions = [''critical'', ''high'', ''high'']\<rparr>,
      \<lparr>rule_id = ''storage_low_space'', rule_category = ''system'',
       rule_metrics =
         [(''storage_usage_percent'', \<lparr>operator = ''>'', threshold = MNum 90\<rparr>)],
       rule_solutions = [''critical'', ''high'', ''medium'']\<rparr>]"

record tip =
  tip_id :: string
  tip_solutions :: "string list"
  tip_priority :: string
  tip_agent_id :: "string option"
  system_wide :: bool

definition py_max :: "string list \<Rightarrow> error + string" where
  \<comment> \<open>\<^verbatim>\<open>max(...)\<close> over texts: Python compares them code point by code point\<close>
  "py_max xs =
     (case xs of
        [] \<Rightarrow> Inl (ValueError ''max() arg is an empty sequence'')
      | x # rest \<Rightarrow> Inr (foldl max x rest))"

definition py_float :: "string \<Rightarrow> error + rat" where
  \<comment> \<open>\<^verbatim>\<open>float(s)\<close> on unsigned decimal digits, the only texts the rule table holds\<close>
  "py_float s =
     (if s \<noteq> [] \<and> list_all (\<lambda>c. CHR ''0'' \<le> c \<and> c \<le> CHR ''9'') s
      then Inr (of_nat (foldl (\<lambda>n c. 10 * n + (of_char c - 48)) (0::nat) s))
      else Inl (ValueError ''could not convert string to float''))"

definition parse_duration :: "string \<Rightarrow> error + rat" where
  "parse_duration s =
     (if s \<noteq> [] \<and> last s = CHR ''h''
      then bind_err (py_float (butlast s)) (\<lambda>f. Inr (f * 3600))
      else if s \<noteq> [] \<and> last s = CHR ''m''
      then bind_err (py_float (butlast s)) (\<lambda>f. Inr (f * 60))
      else py_float s)"

definition py_le :: "mval \<Rightarrow> mval \<Rightarrow> error + bool" where
  \<comment> \<open>\<^verbatim>\<open>a <= b\<close>: numbers with numbers, texts with texts, \<^verbatim>\<open>TypeError\<close> otherwise;
      the rendering of \<^verbatim>\<open>last_seen\<close> meets a text only in the branch of its own\<close>
  "py_le a b =
     (case (a, b) of
        (MNum x, MNum y) \<Rightarrow> Inr (x \<le> y)
      | (MStr x, MStr y) \<Rightarrow> Inr (x \<le> y)
      | _ \<Rightarrow> Inl TypeError)"

definition py_ge :: "mval \<Rightarrow> mval \<Rightarrow> error + bool" where
  "py_ge a b = py_le b a"

definition check_metric ::
  "datetime \<Rightarrow> string \<Rightarrow> mval \<Rightarrow> metric_cond \<Rightarrow> bool \<Rightarrow> error + bool" where
  \<comment> \<open>one round of the loop over a rule's metrics: the new value of \<^verbatim>\<open>matches\<close>\<close>
  "check_metric now metric_name metric_value c matches =
     (case (metric_name = ''last_seen'', threshold c) of
        (True, MStr duration_str) \<Rightarrow>
          bind_err (parse_duration duration_str) (\<lambda>duration_seconds.
          bind_err (case metric_value of
                      MIso t \<Rightarrow> Inr t
                    | MStr _ \<Rightarrow> Inl (ValueError ''Invalid isoformat string'')
                    | MNum _ \<Rightarrow> Inl TypeError) (\<lambda>seen.
            (let actual_value = total_seconds (now - seen)
             in Inr (if operator c = ''<''
                     then (if duration_seconds \<le> actual_value then False else matches)
                     else if operator c = ''>''
                     then (if actual_value \<le> duration_seconds then False else matches)
                     else matches))))
      | _ \<Rightarrow>
          if metric_name = ''status'' then
            Inr (if operator c = ''=='' \<and> metric_value \<noteq> threshold c then False
                 else if operator c = ''!='' \<and> metric_value = threshold c then False
                 else matches)
          else if operator c = ''>'' then
            bind_err (py_le metric_value (threshold c)) (\<lambda>le. Inr (if le then False else matches))
          else if operator c = ''<'' then
            bind_err (py_ge metric_value (threshold c)) (\<lambda>ge. Inr (if ge then False else matches))
          else if operator c = ''=='' \<and> metric_value \<noteq> threshold c then Inr False
          else Inr matches)"

fun check_metrics ::
  "datetime \<Rightarrow> (string \<times> mval) list \<Rightarrow> bool \<Rightarrow> (string \<times> metric_cond) list \<Rightarrow> error + bool" where
  "check_metrics now metrics matches [] = Inr matches"
| "check_metrics now metrics matches ((metric_name, c) # rest) =
     (case map_of metrics metric_name of
        None \<Rightarrow> Inr False
      | Some v \<Rightarrow>
          bind_err (check_metric now metric_name v c matches)
            (\<lambda>m. check_metrics now metrics m rest))"

fun agent_tips ::
  "datetime \<Rightarrow> (string \<times> mval) list \<Rightarrow> string \<Rightarrow> tip_rule list \<Rightarrow> error + tip list" where
  "agent_tips now metrics aid [] = Inr []"
| "agent_tips now metrics aid (r # rs) =
     (if rule_category r \<noteq> ''agent'' then agent_tips now metrics aid rs
      else
        bind_err (check_metrics now metrics True (rule_metrics r)) (\<lambda>matches.
          if matches
          then bind_err (py_max (rule_solutions r)) (\<lambda>p.
               bind_err (agent_tips now metrics aid rs) (\<lambda>ts.
                 Inr (\<lparr>tip_id = rule_id r, tip_solutions = rule_solutions r,
                       tip_priority = p, tip_agent_id = Some aid, system_wide = False\<rparr> # ts)))
          else agent_tips now metrics aid rs))"

definition agent_metrics :: "agent_stats \<Rightarrow> performance \<Rightarrow> datetime \<Rightarrow> (string \<times> mval) list" where
  "agent_metrics stats perf now =
     [(''success_rate'', MNum (success_rate perf)),
      (''avg_duration_seconds'', MNum (avg_duration perf)),
      (''failed_backups'', MNum (of_nat (failed_backups stats))),
      (''total_backups'', MNum (of_nat (total_backups stats))),
      (''status'', MStr (s_status stats)),
      (''last_seen'', MIso (s_last_seen stats))]
     @ (if s_status stats = ''offline''
        then [(''offline_duration'', MNum (total_seconds (now - s_last_seen stats)))]
        else [])"

definition analyze_agent_health ::
  "db \<Rightarrow> settings \<Rightarrow> string \<Rightarrow> datetime \<Rightarrow> error + tip list" where
  "analyze_agent_health d st aid now =
     (case get_agent_stats d st aid now of
        None \<Rightarrow> Inr []
      | Some stats \<Rightarrow>
          agent_tips now (agent_metrics stats (get_agent_performance d aid 7 now) now) aid
            TIPS_DATABASE)"

text \<open>
  The names bound at module level in \<^verbatim>\<open>services/agents.py\<close> and in
  \<^verbatim>\<open>services/stats.py\<close>: their imports, \<^verbatim>\<open>logger\<close>, and their functions.
\<close>

definition agents_module :: "string list" where
  "agents_module =
     [''json'', ''logging'', ''datetime'', ''timedelta'', ''List'', ''Dict'', ''Any'',
      ''Optional'', ''uuid4'', ''Session'', ''and_'', ''or_'', ''func'', ''models'',
      ''schemas'', ''settings'', ''helpers'', ''logger'',
      ''get_agent'', ''get_agent_by_hostname'', ''get_agents'', ''create_agent'',
      ''create_default_config'', ''update_agent'', ''update_agent_config'',
      ''update_agent_heartbeat'', ''get_agent_config'', ''report_backup'',
      ''get_agent_stats'', ''get_agent_performance'']"

definition stats_module :: "string list" where
  "stats_module =
     [''datetime'', ''timedelta'', ''List'', ''Dict'', ''Any'', ''Optional'', ''Session'',
      ''func'', ''and_'', ''or_'', ''text'', ''models'', ''schemas'', ''agents'', ''backup'',
      ''get_system_overview'', ''get_backup_trends'', ''get_agent_performance_comparison'',
      ''get_storage_usage_by_agent'', ''get_backup_success_rate_by_tool'',
      ''get_top_backup_sources'']"

definition module_getattr :: "string list \<Rightarrow> string \<Rightarrow> error + unit" where
  \<comment> \<open>\<^verbatim>\<open>module.attr\<close>: a name the module does not bind raises \<^verbatim>\<open>AttributeError\<close>\<close>
  "module_getattr names attr =
     (if attr \<in> set names then Inr () else Inl (AttributeError attr))"

record system_overview =
  o_total_agents :: nat
  o_online_agents :: nat
  o_success_rate :: rat
  o_storage_usage_percent :: rat

definition system_metrics :: "system_overview \<Rightarrow> (string \<times> mval) list" where
  "system_metrics ov =
     [(''storage_usage_percent'', MNum (o_storage_usage_percent ov)),
      (''total_agents'', MNum (of_nat (o_total_agents ov))),
      (''online_agents'', MNum (of_nat (o_online_agents ov))),
      (''success_rate'', MNum (o_success_rate ov))]"

definition system_check_metric :: "mval \<Rightarrow> metric_cond \<Rightarrow> bool \<Rightarrow> error + bool" where
  "system_check_metric metric_value c matches =
     (if operator c = ''>'' then
        bind_err (py_le metric_value (threshold c)) (\<lambda>le. Inr (if le then False else matches))
      else if operator c = ''<'' then
        bind_err (py_ge metric_value (threshold c)) (\<lambda>ge. Inr (if ge then False else matches))
      else Inr matches)"

fun system_check_metrics ::
  "(string \<times> mval) list \<Rightarrow> bool \<Rightarrow> (string \<times> metric_cond) list \<Rightarrow> error + bool" where
  "system_check_metrics metrics matches [] = Inr matches"
| "system_check_metrics metrics matches ((metric_name, c) # rest) =
     (case map_of metrics metric_name of
        None \<Rightarrow> Inr False
      | Some v \<Rightarrow>
          bind_err (system_check_metric v c matches)
            (\<lambda>m. system_check_metrics metrics m rest))"

fun system_tips :: "(string \<times> mval) list \<Rightarrow> tip_rule list \<Rightarrow> error + tip list" where
  "system_tips metrics [] = Inr []"
| "system_tips metrics (r # rs) =
     (if rule_category r \<noteq> ''system'' then system_tips metrics rs
      else
        bind_err (system_check_metrics metrics True (rule_metrics r)) (\<lambda>matches.
          if matches
          then bind_err (py_max (rule_solutions r)) (\<lambda>p.
               bind_err (system_tips metrics rs) (\<lambda>ts.
                 Inr (\<lparr>tip_id = rule_id r, tip_solutions = rule_solutions r,
                       tip_priority = p, tip_agent_id = None, system_wide = True\<rparr> # ts)))
          else system_tips metrics rs))"

definition analyze_system_health ::
  "(db \<Rightarrow> datetime \<Rightarrow> system_overview option) \<Rightarrow> db \<Rightarrow> datetime \<Rightarrow> error + tip list" where
  \<comment> \<open>\<open>overview\<close> stands for the callable that \<^verbatim>\<open>agents.get_system_overview\<close> would denote\<close>
  "analyze_system_health overview d now =
     bind_err (module_getattr agents_module ''get_system_overview'') (\<lambda>_.
       case overview d now of
         None \<Rightarrow> Inr []
       | Some ov \<Rightarrow> system_tips (system_metrics ov) TIPS_DATABASE)"

fun agents_tips ::
  "db \<Rightarrow> settings \<Rightarrow> datetime \<Rightarrow> agent list \<Rightarrow> error + tip list" where
  "agents_tips d st now [] = Inr []"
| "agents_tips d st now (a # rest) =
     bind_err (analyze_agent_health d st (agent_id a) now) (\<lambda>ts.
     bind_err (agents_tips d st now rest) (\<lambda>more. Inr (ts @ more)))"

definition dedupe_key :: "tip \<Rightarrow> error + string" where
  "dedupe_key t =
     (if system_wide t
      then Inr (tip_id t @ (case tip_agent_id t of None \<Rightarrow> [] | Some a \<Rightarrow> a))
      else (case tip_agent_id t of
              None \<Rightarrow> Inl (KeyError ''agent_id'')
            | Some a \<Rightarrow> Inr (tip_id t @ a)))"

definition dict_set :: "'k \<Rightarrow> 'v \<Rightarrow> ('k \<times> 'v) list \<Rightarrow> ('k \<times> 'v) list" where
  \<comment> \<open>\<^verbatim>\<open>d[k] = v\<close>: a known key keeps its place\<close>
  "dict_set k v m =
     (if map_of m k = None then m @ [(k, v)]
      else update_first (\<lambda>e. fst e = k) (\<lambda>e. (k, v)) m)"

fun unique_tips :: "(string \<times> tip) list \<Rightarrow> tip list \<Rightarrow> error + (string \<times> tip) list" where
  "unique_tips acc [] = Inr acc"
| "unique_tips acc (t # ts) =
     bind_err (dedupe_key t) (\<lambda>k. unique_tips (dict_set k t acc) ts)"

definition priority_rank :: "string \<Rightarrow> error + nat" where
  "priority_rank p =
     (case map_of [(''critical'', 4), (''high'', 3), (''medium'', 2), (''low'', 1::nat)] p of
        None \<Rightarrow> Inl (KeyError p)
      | Some r \<Rightarrow> Inr r)"

fun rank_all :: "tip list \<Rightarrow> error + (nat \<times> tip) list" where
  "rank_all [] = Inr []"
| "rank_all (t # ts) =
     bind_err (priority_rank (tip_priority t)) (\<lambda>r.
     bind_err (rank_all ts) (\<lambda>rs. Inr ((r, t) # rs)))"

definition get_all_applicable_tips ::
  "(db \<Rightarrow> datetime \<Rightarrow> system_overview option) \<Rightarrow> db \<Rightarrow> settings \<Rightarrow> datetime
     \<Rightarrow> error + tip list" where
  \<comment> \<open>\<^verbatim>\<open>sorted(..., reverse=True)\<close> is stable: equal ranks keep their order\<close>
  "get_all_applicable_tips overview d st now =
     bind_err (analyze_system_health overview d now) (\<lambda>system.
     bind_err (agents_tips d st now (get_agents d 0 100 None)) (\<lambda>per_agent.
     bind_err (unique_tips [] (system @ per_agent)) (\<lambda>unique.
     bind_err (rank_all (map snd unique)) (\<lambda>ranked.
       Inr (map snd (sort_key (\<lambda>e. - int (fst e)) ranked))))))"

text \<open>The rank of a priority under the ordering low, medium, high, critical.\<close>

definition rank_of :: "string \<Rightarrow> nat" where
  "rank_of p = (case map_of EVENT_PRIORITIES p of None \<Rightarrow> 0 | Some r \<Rightarrow> r)"

definition max_priority :: "string list \<Rightarrow> string" where
  \<comment> \<open>the first solution priority of greatest rank\<close>
  "max_priority ps =
     (case ps of
        [] \<Rightarrow> []
      | p # rest \<Rightarrow> foldl (\<lambda>best q. if rank_of best < rank_of q then q else best) p rest)"

text \<open>
  The mean duration as the specification words it: over the jobs that have an end time,
  and 0 when there is none.
\<close>

definition spec_avg_duration :: "backup_job list \<Rightarrow> rat" where
  "spec_avg_duration js =
     (let ds = concat (map (\<lambda>j. case end_time j of
                                   None \<Rightarrow> []
                                 | Some e \<Rightarrow> [total_seconds (e - start_time j)]) js)
      in if ds = [] then 0 else round2 (sum_list ds / of_nat (length ds)))"

section \<open>Example states\<close>

definition example_settings :: settings where
  "example_settings = \<lparr>host = ''localhost'', agent_heartbeat_timeout_minutes = 15\<rparr>"

definition example_agent :: agent where
  "example_agent =
     \<lparr>hostname = ''db01'', ip_address = ''10.0.0.1'', os = ''linux'', agent_id = ''a1'',
      last_seen = 1000000000, enabled = True\<rparr>"

definition empty_db :: db where
  "empty_db =
     \<lparr>agents = [], agent_configs = [], backup_jobs = [], system_events = [],
      notifications = []\<rparr>"

definition one_agent_db :: db where
  "one_agent_db = empty_db\<lparr>agents := [example_agent]\<rparr>"

definition failed_job :: backup_job where
  "failed_job =
     \<lparr>job_agent_id = ''a1'', start_time = 999000000, end_time = None, status = ''failed'',
      tool = ''restic'', source = ''/data'', destination = ''/bk'', size_bytes = 0,
      logs = [], error_message = None\<rparr>"

definition finished_job :: backup_job where
  \<comment> \<open>a job that ran for 100 seconds\<close>
  "finished_job =
     \<lparr>job_agent_id = ''a1'', start_time = 800000000, end_time = Some 900000000,
      status = ''success'', tool = ''restic'', source = ''/data'', destination = ''/bk'',
      size_bytes = 0, logs = [], error_message = None\<rparr>"

definition running_job :: backup_job where
  "running_job =
     \<lparr>job_agent_id = ''a1'', start_time = 850000000, end_time = None, status = ''running'',
      tool = ''restic'', source = ''/data'', destination = ''/bk'', size_bytes = 0,
      logs = [], error_message = None\<rparr>"

definition failing_db :: db where
  \<comment> \<open>four failed jobs of the one agent\<close>
  "failing_db = one_agent_db\<lparr>backup_jobs := [failed_job, failed_job, failed_job, failed_job]\<rparr>"

definition running_db :: db where
  \<comment> \<open>one finished and one running job of the one agent\<close>
  "running_db = one_agent_db\<lparr>backup_jobs := [finished_job, running_job]\<rparr>"



definition blank_info :: "string \<rightharpoonup> string" where
  \<comment> \<open>a registration request with the empty hostname\<close>
  "blank_info = [''hostname'' \<mapsto> [], ''ip_address'' \<mapsto> ''10.0.0.9'', ''os'' \<mapsto> ''linux'']"

definition blank_agent :: agent where
  "blank_agent =
     \<lparr>hostname = [], ip_address = ''10.0.0.9'', os = ''linux'', agent_id = ''u1'',
      last_seen = 5, enabled = True\<rparr>"

definition db01_info :: "string \<rightharpoonup> string" where
  "db01_info = [''hostname'' \<mapsto> ''db01'', ''ip_address'' \<mapsto> ''10.0.0.2'', ''os'' \<mapsto> ''bsd'']"

definition registered_agent :: agent where
  \<comment> \<open>the agent that \<open>db01_info\<close> registers when the clock reads 7\<close>
  "registered_agent =
     \<lparr>hostname = ''db01'', ip_address = ''10.0.0.2'', os = ''bsd'', agent_id = ''u1'',
      last_seen = 7, enabled = True\<rparr>"

definition registered_db :: db where
  "registered_db =
     empty_db\<lparr>agents := [registered_agent],
              agent_configs := [\<lparr>config_agent_id = ''u1'',
                                 config = default_config example_settings ''u1''\<rparr>]\<rparr>"



section \<open>Properties\<close>

subsection \<open>Health score\<close>

lemma clamp_cases: "max 0 (min 100 (x::rat)) = (if x < 0 then 0 else if 100 < x then 100 else x)"
  by (simp add: max_def min_def)

lemma online_iff: "(now - minutes 15 < seen) = (now - seen < minutes 15)"
  by (simp add: minutes_def) linarith

lemma health_score_refines:
  "calculate_health_score a stats perf issues now
     = spec_health_score (set issues) (success_rate perf) (last_seen a) now"
  unfolding calculate_health_score_def spec_health_score_def Let_def clamp_cases online_iff
  by (simp only: if_distrib [of "\<lambda>x. x - _"] if_distrib [of "\<lambda>x. x + _"]) (simp add: algebra_simps)

lemma clamp_bounds: "0 \<le> max 0 (min 100 (x::rat)) \<and> max 0 (min 100 x) \<le> 100"
  by simp

lemma health_score_bounds:
  "0 \<le> calculate_health_score a stats perf issues now
   \<and> calculate_health_score a stats perf issues now \<le> 100"
  unfolding calculate_health_score_def Let_def by (rule clamp_bounds)

text \<open>
  C1. The health score computed from an agent snapshot is the specified one: 100, less 30,
  40 and 20 for the issues high_failure_rate, not_reporting and low_success_rate, less
  half of (80 - success_rate) when the success rate is below 80, plus 10 when last_seen
  is less than 15 minutes before now, clamped to the interval from 0 to 100; it always
  lies in that interval.
\<close>

theorem calculate_health_score_spec:
  "calculate_health_score a stats perf issues now
     = spec_health_score (set issues) (success_rate perf) (last_seen a) now
   \<and> 0 \<le> calculate_health_score a stats perf issues now
   \<and> calculate_health_score a stats perf issues now \<le> 100"
  using health_score_refines health_score_bounds by simp

subsection \<open>Average duration\<close>

lemma round2_0: "round2 0 = 0"
  by (simp add: round2_def)

lemma round2_50: "round2 50 = 50"
  by (simp add: round2_def)

lemma round2_100: "round2 100 = 100"
  by (simp add: round2_def)

lemma running_window:
  "window_backups running_db ''a1'' 7 1000000000 = [finished_job, running_job]"
  by (simp add: window_backups_def running_db_def one_agent_db_def empty_db_def days_def
      finished_job_def running_job_def)

lemma running_daily:
  "add_backup (add_backup [] finished_job) running_job =
     [(0, \<lparr>d_success = 1, d_failed = 0, d_total = 2, d_duration = 100, d_size = 0\<rparr>)]"
  by (simp add: add_backup_def count_backup_def new_day_def date_of_def finished_job_def
      running_job_def total_seconds_def Let_def)

text \<open>
  C2. With one job that ran for 100 seconds and one job still running in the window,
  the performance computation returns an average duration of 50 seconds, where the mean
  over the jobs that have an end time is 100 seconds: the running job counts in the
  divisor.
\<close>

theorem avg_duration_counts_running_jobs:
  "avg_duration (get_agent_performance running_db ''a1'' 7 1000000000) = 50
   \<and> spec_avg_duration (window_backups running_db ''a1'' 7 1000000000) = 100"
proof
  show "avg_duration (get_agent_performance running_db ''a1'' 7 1000000000) = 50"
    by (simp add: get_agent_performance_def get_agent_performance_try_def running_window
        running_daily bind_err_def py_div_def round2_0 round2_50 Let_def)
  show "spec_avg_duration (window_backups running_db ''a1'' 7 1000000000) = 100"
    by (simp add: running_window spec_avg_duration_def finished_job_def running_job_def
        total_seconds_def round2_100 Let_def)
qed

subsection \<open>Event vocabulary\<close>

lemma vocabulary_iff:
  "((cat, etype) \<in> set vocabulary) =
     (case map_of EVENT_CATEGORIES cat of None \<Rightarrow> False | Some ts \<Rightarrow> etype \<in> set ts)"
  by (auto simp: vocabulary_def EVENT_CATEGORIES_def)

text \<open>
  C5. A (category, event_type) pair outside the vocabulary table makes event creation
  raise ValueError, and the store is left as it was: no event record is created.
\<close>

theorem create_event_rejects_unknown_pair:
  assumes "(cat, etype) \<notin> set vocabulary"
  shows "\<exists>msg. create_event d cat etype descr aid job rel dets prio now
                 = (Inl (ValueError msg), d)"
proof (cases "map_of EVENT_CATEGORIES cat")
  case None
  then show ?thesis by (simp add: create_event_def)
next
  case (Some ts)
  with assms have "etype \<notin> set ts" by (simp add: vocabulary_iff)
  with Some show ?thesis by (simp add: create_event_def)
qed

theorem create_event_rejects_unknown_pair_witness:
  "(''agent'', ''unknown_type'') \<notin> set vocabulary
   \<and> (\<exists>msg. create_event empty_db ''agent'' ''unknown_type'' ''test'' None None None None
               ''medium'' 0 = (Inl (ValueError msg), empty_db))"
proof -
  have h: "(''agent'', ''unknown_type'') \<notin> set vocabulary"
    by (simp add: vocabulary_def EVENT_CATEGORIES_def)
  show ?thesis
    using h create_event_rejects_unknown_pair
      [OF h, of empty_db "''test''" None None None None "''medium''" 0]
    by simp
qed

subsection \<open>Tip priority\<close>

lemma failing_stats:
  "get_agent_stats failing_db example_settings ''a1'' 1000000000 =
     Some \<lparr>s_agent_id = ''a1'', s_hostname = ''db01'', total_backups = 4, success_backups = 0,
           failed_backups = 4, s_success_rate = 0, last_backup = Some 999000000,
           s_status = ''online'', s_last_seen = 1000000000\<rparr>"
  by (simp add: get_agent_stats_def get_agent_stats_try_def get_agent_def failing_db_def
      one_agent_db_def empty_db_def example_agent_def example_settings_def failed_job_def
      bind_err_def py_div_def round2_0 minutes_def Let_def)

lemma failing_window:
  "window_backups failing_db ''a1'' 7 1000000000 = [failed_job, failed_job, failed_job, failed_job]"
  by (simp add: window_backups_def failing_db_def one_agent_db_def empty_db_def days_def
      failed_job_def)

lemma failing_daily:
  "add_backup (add_backup (add_backup (add_backup [] failed_job) failed_job) failed_job) failed_job =
     [(0, \<lparr>d_success = 0, d_failed = 4, d_total = 4, d_duration = 0, d_size = 0\<rparr>)]"
  by (simp add: add_backup_def count_backup_def new_day_def date_of_def failed_job_def Let_def)

lemma failing_performance:
  "get_agent_performance failing_db ''a1'' 7 1000000000 =
     \<lparr>daily_backups =
        [(0, \<lparr>d_success = 0, d_failed = 4, d_total = 4, d_duration = 0, d_size = 0\<rparr>)],
      success_rate = 0, avg_duration = 0, total_size_gb = 0, p_total_backups = 4\<rparr>"
  by (simp add: get_agent_performance_def get_agent_performance_try_def failing_window
      failing_daily bind_err_def py_div_def round2_0 Let_def)

lemma text_max_high: "py_max [''critical'', ''high'', ''critical''] = Inr ''high''"
  by (simp add: py_max_def max_def)

text \<open>
  C6. For the agent with four failed jobs the rule backup_high_failure_rate matches, and
  the tip carries the priority high, the greatest text of the rule's solution priorities,
  where their maximum under low < medium < high < critical is critical.
\<close>

theorem tip_priority_is_text_maximum:
  "analyze_agent_health failing_db example_settings ''a1'' 1000000000 =
     Inr [\<lparr>tip_id = ''backup_high_failure_rate'',
           tip_solutions = [''critical'', ''high'', ''critical''],
           tip_priority = ''high'', tip_agent_id = Some ''a1'', system_wide = False\<rparr>]
   \<and> max_priority [''critical'', ''high'', ''critical''] = ''critical''"
proof
  show "analyze_agent_health failing_db example_settings ''a1'' 1000000000 =
     Inr [\<lparr>tip_id = ''backup_high_failure_rate'',
           tip_solutions = [''critical'', ''high'', ''critical''],
           tip_priority = ''high'', tip_agent_id = Some ''a1'', system_wide = False\<rparr>]"
    by (simp add: analyze_agent_health_def failing_stats failing_performance agent_metrics_def
        TIPS_DATABASE_def check_metric_def py_le_def py_ge_def bind_err_def text_max_high
        parse_duration_def py_float_def total_seconds_def)
  show "max_priority [''critical'', ''high'', ''critical''] = ''critical''"
    by (simp add: max_priority_def rank_of_def EVENT_PRIORITIES_def)
qed

subsection \<open>System health\<close>

lemma agents_getattr:
  "module_getattr agents_module ''get_system_overview'' = Inl (AttributeError ''get_system_overview'')"
  by (simp add: module_getattr_def agents_module_def)

text \<open>
  C10. Whatever the store holds, analyze_system_health raises AttributeError at its
  first statement: the module agents binds no get_system_overview, which only the module
  stats defines. No system tip is returned, and get_all_applicable_tips, which calls it
  first, raises the same error.
\<close>

theorem analyze_system_health_attribute_error:
  "analyze_system_health overview d now = Inl (AttributeError ''get_system_overview'')
   \<and> get_all_applicable_tips overview d st now = Inl (AttributeError ''get_system_overview'')
   \<and> ''get_system_overview'' \<in> set stats_module
   \<and> ''get_system_overview'' \<notin> set agents_module"
proof -
  have a: "analyze_system_health overview d now = Inl (AttributeError ''get_system_overview'')"
    by (simp add: analyze_system_health_def agents_getattr bind_err_def)
  have b: "get_all_applicable_tips overview d st now = Inl (AttributeError ''get_system_overview'')"
    by (simp add: get_all_applicable_tips_def a bind_err_def)
  have c: "''get_system_overview'' \<in> set stats_module"
    by (simp add: stats_module_def)
  have e: "''get_system_overview'' \<notin> set agents_module"
    by (simp add: agents_module_def)
  from a b c e show ?thesis by simp
qed

subsection \<open>Heartbeat\<close>

lemma find_update_first:
  "find P xs = Some a \<Longrightarrow> P (f a) \<Longrightarrow> find P (update_first P f xs) = Some (f a)"
  by (induction xs) (auto split: if_splits)

lemma length_update_first: "length (update_first P f xs) = length xs"
  by (induction xs) auto

lemma filter_update_first:
  "(\<And>x. P x \<Longrightarrow> \<not> Q x) \<Longrightarrow> (\<And>x. P x \<Longrightarrow> \<not> Q (f x)) \<Longrightarrow>
     filter Q (update_first P f xs) = filter Q xs"
  by (induction xs) auto

lemma map_update_first:
  "(\<And>x. P x \<Longrightarrow> g (f x) = g x) \<Longrightarrow> map g (update_first P f xs) = map g xs"
  by (induction xs) auto

text \<open>
  C7. A heartbeat for an agent_id that no Agent record carries returns False and leaves
  the store as it was. For a known agent_id it returns True, the record found under the
  agent_id afterwards is the old one with last_seen set to now, the records of the other
  agents and the other tables are unchanged, and no record is added.
\<close>

theorem heartbeat_unknown_and_known:
  "(get_agent d aid = None \<longrightarrow> update_agent_heartbeat d aid now = (False, d))
   \<and> (\<forall>a. get_agent d aid = Some a \<longrightarrow>
         fst (update_agent_heartbeat d aid now) = True
         \<and> get_agent (snd (update_agent_heartbeat d aid now)) aid = Some (a\<lparr>last_seen := now\<rparr>)
         \<and> length (agents (snd (update_agent_heartbeat d aid now))) = length (agents d)
         \<and> filter (\<lambda>b. agent_id b \<noteq> aid) (agents (snd (update_agent_heartbeat d aid now)))
             = filter (\<lambda>b. agent_id b \<noteq> aid) (agents d)
         \<and> snd (update_agent_heartbeat d aid now)
             = d\<lparr>agents := agents (snd (update_agent_heartbeat d aid now))\<rparr>)"
proof (intro conjI allI impI)
  assume "get_agent d aid = None"
  then show "update_agent_heartbeat d aid now = (False, d)"
    by (simp add: update_agent_heartbeat_def)
next
  fix a assume a: "get_agent d aid = Some a"
  then have r: "update_agent_heartbeat d aid now =
      (True, d\<lparr>agents := update_first (\<lambda>b. agent_id b = aid)
                            (\<lambda>b. b\<lparr>last_seen := now\<rparr>) (agents d)\<rparr>)"
    by (simp add: update_agent_heartbeat_def)
  show "fst (update_agent_heartbeat d aid now) = True" by (simp add: r)
  from a have f: "find (\<lambda>b. agent_id b = aid) (agents d) = Some a"
    by (simp add: get_agent_def)
  from f have "agent_id a = aid" by (auto simp: find_Some_iff)
  then show "get_agent (snd (update_agent_heartbeat d aid now)) aid = Some (a\<lparr>last_seen := now\<rparr>)"
    using find_update_first [OF f, of "\<lambda>b. b\<lparr>last_seen := now\<rparr>"]
    by (simp add: r get_agent_def)
  show "length (agents (snd (update_agent_heartbeat d aid now))) = length (agents d)"
    by (simp add: r length_update_first)
  show "filter (\<lambda>b. agent_id b \<noteq> aid) (agents (snd (update_agent_heartbeat d aid now)))
             = filter (\<lambda>b. agent_id b \<noteq> aid) (agents d)"
    by (simp add: r filter_update_first)
  show "snd (update_agent_heartbeat d aid now)
             = d\<lparr>agents := agents (snd (update_agent_heartbeat d aid now))\<rparr>"
    by (simp add: r)
qed

theorem heartbeat_unknown_and_known_witness:
  "get_agent empty_db ''ghost'' = None
   \<and> update_agent_heartbeat empty_db ''ghost'' 5 = (False, empty_db)
   \<and> get_agent one_agent_db ''a1'' = Some example_agent
   \<and> fst (update_agent_heartbeat one_agent_db ''a1'' 2000000000) = True
   \<and> get_agent (snd (update_agent_heartbeat one_agent_db ''a1'' 2000000000)) ''a1''
       = Some (example_agent\<lparr>last_seen := 2000000000\<rparr>)"
proof -
  have h1: "get_agent empty_db ''ghost'' = None"
    by (simp add: get_agent_def empty_db_def)
  have h2: "get_agent one_agent_db ''a1'' = Some example_agent"
    by (simp add: get_agent_def one_agent_db_def empty_db_def example_agent_def)
  show ?thesis
    using h1 h2 heartbeat_unknown_and_known [of empty_db "''ghost''" 5]
      heartbeat_unknown_and_known [of one_agent_db "''a1''" 2000000000]
    by simp
qed

subsection \<open>Registration\<close>

lemma find_snoc:
  "find P (xs @ [x]) = (case find P xs of None \<Rightarrow> (if P x then Some x else None) | Some y \<Rightarrow> Some y)"
  by (induction xs) auto

lemma create_agent_new:
  assumes "info ''hostname'' = Some h" and "get_agent_by_hostname d h = None"
  shows "create_agent d info st uuid now =
           (Inr \<lparr>hostname = h, ip_address = dict_get info ''ip_address'' [],
                 os = dict_get info ''os'' [], agent_id = uuid, last_seen = now,
                 enabled = True\<rparr>,
            d\<lparr>agents := agents d @
                  [\<lparr>hostname = h, ip_address = dict_get info ''ip_address'' [],
                    os = dict_get info ''os'' [], agent_id = uuid, last_seen = now,
                    enabled = True\<rparr>],
              agent_configs := agent_configs d @
                  [\<lparr>config_agent_id = uuid, config = default_config st uuid\<rparr>]\<rparr>)"
  using assms by (simp add: create_agent_def create_default_config_def Let_def)

lemma create_agent_existing:
  assumes "info ''hostname'' = Some h" and "get_agent_by_hostname d h = Some e"
  shows "create_agent d info st uuid now =
           (Inr (e\<lparr>ip_address := dict_get info ''ip_address'' (ip_address e),
                   os := dict_get info ''os'' (os e), last_seen := now\<rparr>),
            d\<lparr>agents := update_first (\<lambda>a. hostname a = h)
                  (\<lambda>_. e\<lparr>ip_address := dict_get info ''ip_address'' (ip_address e),
                           os := dict_get info ''os'' (os e), last_seen := now\<rparr>)
                  (agents d)\<rparr>)"
  using assms by (simp add: create_agent_def Let_def)

lemma found_hostname: "get_agent_by_hostname d h = Some e \<Longrightarrow> hostname e = h"
  by (auto simp: get_agent_by_hostname_def find_Some_iff)

text \<open>
  C8 as stated fails: last_seen is overwritten with the reading of the clock, not
  maximised. When the clock reads 7 at the first registration of db01 and 5 at the
  second, the same agent is returned and its last_seen goes from 7 down to 5.
\<close>

theorem register_clock_back_counterexample:
  "create_agent empty_db db01_info example_settings ''u1'' 7
     = (Inr registered_agent, registered_db)
   \<and> create_agent registered_db db01_info example_settings ''u2'' 5
       = (Inr (registered_agent\<lparr>last_seen := 5\<rparr>),
          registered_db\<lparr>agents := [registered_agent\<lparr>last_seen := 5\<rparr>]\<rparr>)
   \<and> last_seen (registered_agent\<lparr>last_seen := 5\<rparr>) < last_seen registered_agent"
  by (simp add: create_agent_def get_agent_by_hostname_def create_default_config_def
      db01_info_def registered_agent_def registered_db_def empty_db_def dict_get_def Let_def)

text \<open>
  C8, amended. Two registrations with one hostname both succeed and return the same
  agent_id; the second returns the first's record with ip_address, os and last_seen
  updated and adds no record; if the hostnames of the store were distinct before, they
  are distinct afterwards; and last_seen after each call is that call's reading of the
  clock, so that it does not decrease exactly when the clock does not go back.
\<close>

theorem register_twice_same_agent:
  assumes h1: "info1 ''hostname'' = Some h" and h2: "info2 ''hostname'' = Some h"
  shows "\<exists>a1 d1 a2 d2.
     create_agent d info1 st u1 now1 = (Inr a1, d1)
     \<and> create_agent d1 info2 st u2 now2 = (Inr a2, d2)
     \<and> agent_id a2 = agent_id a1
     \<and> a2 = a1\<lparr>ip_address := dict_get info2 ''ip_address'' (ip_address a1),
                os := dict_get info2 ''os'' (os a1), last_seen := now2\<rparr>
     \<and> last_seen a1 = now1 \<and> last_seen a2 = now2
     \<and> length (agents d2) = length (agents d1)
     \<and> get_agent_by_hostname d2 h = Some a2
     \<and> (distinct (map hostname (agents d)) \<longrightarrow> distinct (map hostname (agents d2)))"
proof -
  obtain a1 d1 where first: "create_agent d info1 st u1 now1 = (Inr a1, d1)"
    and found: "get_agent_by_hostname d1 h = Some a1"
    and seen: "last_seen a1 = now1"
    and names: "distinct (map hostname (agents d)) \<longrightarrow> distinct (map hostname (agents d1))"
  proof (cases "get_agent_by_hostname d h")
    case None
    let ?a = "\<lparr>hostname = h, ip_address = dict_get info1 ''ip_address'' [],
                 os = dict_get info1 ''os'' [], agent_id = u1, last_seen = now1,
                 enabled = True\<rparr>"
    let ?d = "d\<lparr>agents := agents d @ [?a],
                agent_configs := agent_configs d @
                  [\<lparr>config_agent_id = u1, config = default_config st u1\<rparr>]\<rparr>"
    have 1: "create_agent d info1 st u1 now1 = (Inr ?a, ?d)"
      using create_agent_new [where info = info1 and h = h, OF h1 None] .
    from None have 2: "get_agent_by_hostname ?d h = Some ?a"
      by (simp add: get_agent_by_hostname_def find_snoc)
    from None have "h \<notin> hostname ` set (agents d)"
      by (auto simp: get_agent_by_hostname_def find_None_iff)
    then have 3: "distinct (map hostname (agents d)) \<longrightarrow> distinct (map hostname (agents ?d))"
      by simp
    show ?thesis using that [OF 1 2 _ 3] by simp
  next
    case (Some e)
    let ?a = "e\<lparr>ip_address := dict_get info1 ''ip_address'' (ip_address e),
                 os := dict_get info1 ''os'' (os e), last_seen := now1\<rparr>"
    let ?d = "d\<lparr>agents := update_first (\<lambda>a. hostname a = h) (\<lambda>_. ?a) (agents d)\<rparr>"
    have 1: "create_agent d info1 st u1 now1 = (Inr ?a, ?d)"
      using create_agent_existing [where info = info1 and h = h, OF h1 Some] .
    have he: "hostname e = h" using Some by (rule found_hostname)
    from Some have f: "find (\<lambda>a. hostname a = h) (agents d) = Some e"
      by (simp add: get_agent_by_hostname_def)
    have 2: "get_agent_by_hostname ?d h = Some ?a"
      using find_update_first [OF f, of "\<lambda>_. ?a"] he
      by (simp add: get_agent_by_hostname_def)
    have "map hostname (agents ?d) = map hostname (agents d)"
      using he by (simp add: map_update_first)
    then have 3: "distinct (map hostname (agents d)) \<longrightarrow> distinct (map hostname (agents ?d))"
      by simp
    show ?thesis using that [OF 1 2 _ 3] by simp
  qed
  let ?a2 = "a1\<lparr>ip_address := dict_get info2 ''ip_address'' (ip_address a1),
                 os := dict_get info2 ''os'' (os a1), last_seen := now2\<rparr>"
  let ?d2 = "d1\<lparr>agents := update_first (\<lambda>a. hostname a = h) (\<lambda>_. ?a2) (agents d1)\<rparr>"
  have second: "create_agent d1 info2 st u2 now2 = (Inr ?a2, ?d2)"
    using create_agent_existing [where info = info2 and h = h, OF h2 found] .
  have ha: "hostname a1 = h" using found by (rule found_hostname)
  from found have f: "find (\<lambda>a. hostname a = h) (agents d1) = Some a1"
    by (simp add: get_agent_by_hostname_def)
  have found2: "get_agent_by_hostname ?d2 h = Some ?a2"
    using find_update_first [OF f, of "\<lambda>_. ?a2"] ha
    by (simp add: get_agent_by_hostname_def)
  have "map hostname (agents ?d2) = map hostname (agents d1)"
    using ha by (simp add: map_update_first)
  with names have names2: "distinct (map hostname (agents d)) \<longrightarrow> distinct (map hostname (agents ?d2))"
    by simp
  have len: "length (agents ?d2) = length (agents d1)"
    by (simp add: length_update_first)
  have seen2: "last_seen ?a2 = now2" by simp
  show ?thesis
    using first second found2 names2 len seen seen2 by auto
qed

theorem register_twice_same_agent_witness:
  "db01_info ''hostname'' = Some ''db01''
   \<and> distinct (map hostname (agents empty_db))
   \<and> (\<exists>a1 d1 a2 d2.
        create_agent empty_db db01_info example_settings ''u1'' 7 = (Inr a1, d1)
        \<and> create_agent d1 db01_info example_settings ''u2'' 5 = (Inr a2, d2)
        \<and> agent_id a2 = agent_id a1
        \<and> last_seen a1 = 7 \<and> last_seen a2 = 5
        \<and> length (agents d2) = length (agents d1)
        \<and> distinct (map hostname (agents d2)))"
proof -
  have h: "db01_info ''hostname'' = Some ''db01''"
    by (simp add: db01_info_def)
  have e: "distinct (map hostname (agents empty_db))"
    by (simp add: empty_db_def)
  show ?thesis
    using h e
      register_twice_same_agent
        [of db01_info "''db01''" db01_info empty_db example_settings "''u1''" 7 "''u2''" 5]
    by blast
qed

text \<open>
  C4 as stated fails: registering the empty hostname on an empty store returns an agent
  and persists it with its default configuration.
\<close>

theorem create_agent_empty_hostname_counterexample:
  "create_agent empty_db blank_info example_settings ''u1'' 5 =
     (Inr blank_agent,
      empty_db\<lparr>agents := [blank_agent],
               agent_configs := [\<lparr>config_agent_id = ''u1'',
                                  config = default_config example_settings ''u1''\<rparr>]\<rparr>)"
  by (simp add: create_agent_def get_agent_by_hostname_def create_default_config_def
      blank_info_def blank_agent_def empty_db_def dict_get_def Let_def)

text \<open>
  C4, amended. A registration whose hostname is the empty string is not rejected: when no
  Agent record has that hostname, create_agent returns a new enabled agent with the empty
  hostname, the fresh agent_id and last_seen = now, and persists it together with its
  default configuration record.
\<close>

theorem create_agent_accepts_empty_hostname:
  assumes "info ''hostname'' = Some []" and "get_agent_by_hostname d [] = None"
  shows "\<exists>a. create_agent d info st uuid now =
               (Inr a, d\<lparr>agents := agents d @ [a],
                         agent_configs := agent_configs d @
                           [\<lparr>config_agent_id = uuid, config = default_config st uuid\<rparr>]\<rparr>)
             \<and> hostname a = [] \<and> agent_id a = uuid \<and> last_seen a = now \<and> enabled a"
  using create_agent_new [where info = info and h = "[]", OF assms, of st uuid now] by simp

theorem create_agent_accepts_empty_hostname_witness:
  "blank_info ''hostname'' = Some [] \<and> get_agent_by_hostname empty_db [] = None
   \<and> (\<exists>a. create_agent empty_db blank_info example_settings ''u1'' 5 =
               (Inr a, empty_db\<lparr>agents := agents empty_db @ [a],
                         agent_configs := agent_configs empty_db @
                           [\<lparr>config_agent_id = ''u1'',
                             config = default_config example_settings ''u1''\<rparr>]\<rparr>)
             \<and> hostname a = [] \<and> agent_id a = ''u1'' \<and> last_seen a = 5 \<and> enabled a)"
proof -
  have h1: "blank_info ''hostname'' = Some []"
    by (simp add: blank_info_def)
  have h2: "get_agent_by_hostname empty_db [] = None"
    by (simp add: get_agent_by_hostname_def empty_db_def)
  show ?thesis
    using h1 h2 create_agent_accepts_empty_hostname
      [of blank_info empty_db example_settings "''u1''" 5]
    by blast
qed

subsection \<open>Job reports\<close>











subsection \<open>Rates without jobs\<close>

lemma py_div_pos: "0 < n \<Longrightarrow> py_div a (of_nat n) = Inr (a / of_nat n)"
  by (simp add: py_div_def)

lemma stats_try_returns: "\<exists>r. get_agent_stats_try d st aid now = Inr r"
  by (cases "get_agent d aid")
     (simp_all add: get_agent_stats_try_def Let_def bind_err_def py_div_pos)

lemma rate_returns:
  "\<exists>r. (if 0 < (t::nat) then bind_err (py_div a (of_nat t)) (\<lambda>q. Inr (q * 100)) else Inr 0)
        = Inr r"
  by (simp add: py_div_def bind_err_def)

lemma avg_returns: "\<exists>r. (if 0 < (t::nat) then py_div a (of_nat t) else Inr 0) = Inr r"
  by (simp add: py_div_def)

lemma performance_try_returns: "\<exists>p. get_agent_performance_try d aid n now = Inr p"
proof (cases "window_backups d aid n now = []")
  case True
  then show ?thesis by (simp add: get_agent_performance_try_def)
next
  case False
  let ?ds = "foldl add_backup [] (window_backups d aid n now)"
  let ?t = "sum_list (map (\<lambda>e. d_total (snd e)) ?ds)"
  obtain r where r:
    "(if 0 < ?t
      then bind_err (py_div (of_nat (sum_list (map (\<lambda>e. d_success (snd e)) ?ds))) (of_nat ?t))
             (\<lambda>q. Inr (q * 100))
      else Inr 0) = Inr r"
    using rate_returns by blast
  obtain a where a:
    "(if 0 < ?t then py_div (sum_list (map (\<lambda>e. d_duration (snd e)) ?ds)) (of_nat ?t)
      else Inr 0) = Inr a"
    using avg_returns by blast
  show ?thesis
    unfolding get_agent_performance_try_def Let_def r a
    using False by (simp add: bind_err_def py_div_def)
qed

lemma stats_no_jobs:
  assumes "get_agent d aid = Some a"
    and "filter (\<lambda>j. job_agent_id j = aid) (backup_jobs d) = []"
  shows "\<exists>s. get_agent_stats d st aid now = Some s \<and> total_backups s = 0
             \<and> s_success_rate s = 0"
  using assms
  by (simp add: get_agent_stats_def get_agent_stats_try_def Let_def bind_err_def round2_0)

lemma window_no_jobs:
  assumes "filter (\<lambda>j. job_agent_id j = aid) (backup_jobs d) = []"
  shows "window_backups d aid n now = []"
  using assms by (simp add: window_backups_def filter_empty_conv)

lemma performance_empty_window:
  assumes "window_backups d aid n now = []"
  shows "get_agent_performance d aid n now = empty_performance"
  using assms by (simp add: get_agent_performance_def get_agent_performance_try_def)

text \<open>
  C9. For an agent without backup jobs the success rate of get_agent_stats is 0, and the
  success rate and the average duration of get_agent_performance are 0 (as whenever the
  window holds no job of the agent). For every store, the two computations raise no
  exception, in particular no ZeroDivisionError, and return rational numbers.
\<close>

theorem no_jobs_zero_rates_and_no_division_by_zero:
  "(\<forall>a. get_agent d aid = Some a
         \<and> filter (\<lambda>j. job_agent_id j = aid) (backup_jobs d) = [] \<longrightarrow>
         (\<exists>s. get_agent_stats d st aid now = Some s \<and> total_backups s = 0
              \<and> s_success_rate s = 0))
   \<and> (window_backups d aid n now = [] \<longrightarrow>
         success_rate (get_agent_performance d aid n now) = 0
         \<and> avg_duration (get_agent_performance d aid n now) = 0
         \<and> p_total_backups (get_agent_performance d aid n now) = 0)
   \<and> (filter (\<lambda>j. job_agent_id j = aid) (backup_jobs d) = [] \<longrightarrow>
         window_backups d aid n now = [])
   \<and> (\<exists>r. get_agent_stats_try d st aid now = Inr r)
   \<and> (\<exists>p. get_agent_performance_try d aid n now = Inr p)"
proof (intro conjI allI impI)
  fix a
  assume "get_agent d aid = Some a \<and> filter (\<lambda>j. job_agent_id j = aid) (backup_jobs d) = []"
  then show "\<exists>s. get_agent_stats d st aid now = Some s \<and> total_backups s = 0
              \<and> s_success_rate s = 0"
    using stats_no_jobs by blast
next
  assume w: "window_backups d aid n now = []"
  show "success_rate (get_agent_performance d aid n now) = 0"
    by (simp add: performance_empty_window [OF w] empty_performance_def)
  show "avg_duration (get_agent_performance d aid n now) = 0"
    by (simp add: performance_empty_window [OF w] empty_performance_def)
  show "p_total_backups (get_agent_performance d aid n now) = 0"
    by (simp add: performance_empty_window [OF w] empty_performance_def)
next
  assume "filter (\<lambda>j. job_agent_id j = aid) (backup_jobs d) = []"
  then show "window_backups d aid n now = []" by (rule window_no_jobs)
next
  show "\<exists>r. get_agent_stats_try d st aid now = Inr r" by (rule stats_try_returns)
next
  show "\<exists>p. get_agent_performance_try d aid n now = Inr p" by (rule performance_try_returns)
qed

theorem no_jobs_zero_rates_and_no_division_by_zero_witness:
  "get_agent one_agent_db ''a1'' = Some example_agent
   \<and> filter (\<lambda>j. job_agent_id j = ''a1'') (backup_jobs one_agent_db) = []
   \<and> window_backups one_agent_db ''a1'' 7 1000000000 = []
   \<and> (\<exists>s. get_agent_stats one_agent_db example_settings ''a1'' 1000000000 = Some s
           \<and> total_backups s = 0 \<and> s_success_rate s = 0)
   \<and> success_rate (get_agent_performance one_agent_db ''a1'' 7 1000000000) = 0
   \<and> avg_duration (get_agent_performance one_agent_db ''a1'' 7 1000000000) = 0"
proof -
  have h1: "get_agent one_agent_db ''a1'' = Some example_agent"
    by (simp add: get_agent_def one_agent_db_def empty_db_def example_agent_def)
  have h2: "filter (\<lambda>j. job_agent_id j = ''a1'') (backup_jobs one_agent_db) = []"
    by (simp add: one_agent_db_def empty_db_def)
  have h3: "window_backups one_agent_db ''a1'' 7 1000000000 = []"
    by (simp add: window_backups_def one_agent_db_def empty_db_def)
  show ?thesis
    using h1 h2 h3
      no_jobs_zero_rates_and_no_division_by_zero
        [of one_agent_db "''a1''" example_settings 1000000000 7]
    by blast
qed

end
